theory Spec2Isabelle
  imports Main "HOL-Library.Multiset"
begin

section \<open>The persistent store (server.js, DATABASE)\<close>

text \<open>
  The four tables of \<^verbatim>\<open>bridge.db\<close> that the flows use. A table is the list of its rows in
  insertion order. The primary keys are not built into the types: every statement below does
  to the list what SQLite does to the table, including the conflict clause it carries.
  Epoch milliseconds and the platform's numbers are \<open>int\<close>; a nullable TEXT column is a
  \<open>string option\<close>.
\<close>

record user_row =
  username :: string
  userId :: string
  description :: string
  avatar :: string
  createdAt :: int
  lastPostSync :: int
  lastCommentSync :: int
  publicKey :: "string option"
  privateKey :: "string option"

record post_row =
  postId :: string
  post_username :: string
  title :: string
  rawContent :: string
  sensitive :: int
  post_createdAt :: int

type_synonym follower_row = "string \<times> string"

text \<open>
  What the process does to its collaborators, in order: the two platform endpoints it fetches,
  the key generation it asks for, and the activities it hands to the delivery capability.
  The list is bookkeeping for the claims that count such calls; no operation reads it.
\<close>

record accept =
  accept_id :: string
  accept_actor :: string
  accept_object :: string

datatype effect =
    RemoteUserFetch string
  | RemotePostsFetch string
  | KeyPairGenerated string
  | SendActivity string string accept

record world =
  users :: "user_row list"
  posts :: "post_row list"
  followers :: "follower_row list"
  effects :: "effect list"

fun is_posts_fetch :: "effect \<Rightarrow> bool" where
  "is_posts_fetch (RemotePostsFetch _) = True"
| "is_posts_fetch _ = False"

fun is_user_fetch :: "effect \<Rightarrow> bool" where
  "is_user_fetch (RemoteUserFetch _) = True"
| "is_user_fetch _ = False"

fun is_key_generation :: "effect \<Rightarrow> bool" where
  "is_key_generation (KeyPairGenerated _) = True"
| "is_key_generation _ = False"

fun is_send :: "effect \<Rightarrow> bool" where
  "is_send (SendActivity _ _ _) = True"
| "is_send _ = False"

definition posts_fetches :: "world \<Rightarrow> nat" where
  "posts_fetches w = length (filter is_posts_fetch (effects w))"

definition user_fetches :: "world \<Rightarrow> nat" where
  "user_fetches w = length (filter is_user_fetch (effects w))"

definition key_generations :: "world \<Rightarrow> nat" where
  "key_generations w = length (filter is_key_generation (effects w))"

definition sends :: "world \<Rightarrow> nat" where
  "sends w = length (filter is_send (effects w))"

subsection \<open>The SQL statements\<close>

text \<open>\<^verbatim>\<open>SELECT * FROM users WHERE username=?\<close> with \<^verbatim>\<open>.get\<close>: the first matching row.\<close>

definition select_user :: "string \<Rightarrow> user_row list \<Rightarrow> user_row option" where
  "select_user u us = find (\<lambda>r. username r = u) us"

text \<open>
  \<^verbatim>\<open>INSERT INTO users ...\<close> has no conflict clause: on a row with the same primary key the
  statement raises (\<open>None\<close>) and writes nothing.
\<close>

definition insert_user :: "user_row \<Rightarrow> user_row list \<Rightarrow> user_row list option" where
  "insert_user r us =
     (if username r \<in> set (map username us) then None else Some (us @ [r]))"

text \<open>\<^verbatim>\<open>UPDATE users SET lastPostSync=? WHERE username=?\<close>\<close>

definition update_lastPostSync :: "int \<Rightarrow> string \<Rightarrow> user_row list \<Rightarrow> user_row list" where
  "update_lastPostSync t u us =
     map (\<lambda>r. if username r = u then r\<lparr>lastPostSync := t\<rparr> else r) us"

text \<open>\<^verbatim>\<open>UPDATE users SET publicKey=?, privateKey=? WHERE username=?\<close>\<close>

definition update_keys :: "string \<Rightarrow> string \<Rightarrow> string \<Rightarrow> user_row list \<Rightarrow> user_row list" where
  "update_keys pub priv u us =
     map (\<lambda>r. if username r = u then r\<lparr>publicKey := Some pub, privateKey := Some priv\<rparr> else r) us"

text \<open>
  \<^verbatim>\<open>INSERT OR REPLACE INTO posts\<close>: the rows that hold the new row's primary key are deleted,
  then the new row is inserted.
\<close>

definition insert_or_replace_post :: "post_row \<Rightarrow> post_row list \<Rightarrow> post_row list" where
  "insert_or_replace_post r ps = filter (\<lambda>q. postId q \<noteq> postId r) ps @ [r]"

text \<open>\<^verbatim>\<open>SELECT * FROM posts WHERE username=? ORDER BY createdAt DESC\<close>; rows with equal
  \<open>createdAt\<close> stay in table order.\<close>

definition select_posts_desc :: "string \<Rightarrow> post_row list \<Rightarrow> post_row list" where
  "select_posts_desc u ps =
     sort_key (\<lambda>p. - post_createdAt p) (filter (\<lambda>p. post_username p = u) ps)"

text \<open>\<^verbatim>\<open>SELECT COUNT(*) as c FROM followers WHERE username=?\<close>\<close>

definition count_followers :: "string \<Rightarrow> follower_row list \<Rightarrow> nat" where
  "count_followers u fs = length (filter (\<lambda>r. fst r = u) fs)"

text \<open>\<^verbatim>\<open>INSERT OR IGNORE INTO followers (username, actor)\<close>\<close>

definition insert_or_ignore_follower :: "follower_row \<Rightarrow> follower_row list \<Rightarrow> follower_row list" where
  "insert_or_ignore_follower r fs = (if r \<in> set fs then fs else fs @ [r])"

text \<open>\<^verbatim>\<open>DELETE FROM followers WHERE username=? AND actor=?\<close>\<close>

definition delete_follower :: "string \<Rightarrow> string \<Rightarrow> follower_row list \<Rightarrow> follower_row list" where
  "delete_follower u a fs = filter (\<lambda>r. \<not> (fst r = u \<and> snd r = a)) fs"

section \<open>UTIL\<close>

definition hasFollowers :: "string \<Rightarrow> world \<Rightarrow> bool" where
  "hasFollowers u w = (count_followers u (followers w) > 0)"

section \<open>The platform client\<close>

text \<open>
  What an awaited \<^verbatim>\<open>fetch\<close> followed by \<^verbatim>\<open>r.json()\<close> can come to: the fetch promise rejects
  (no connection), the response has a non-success status (\<^verbatim>\<open>!r.ok\<close>), the body does not
  parse, or the body is the payload. The first and the third are exceptions in the caller.
\<close>

datatype 'a response = FetchRejected | NotOk | BodyRejected | Ok 'a

datatype error = NetworkError | BodyError | UniqueConstraint | TypeError

text \<open>\<^verbatim>\<open>data.userInfo\<close>; \<open>description\<close> and \<open>avatar\<close> may be missing.\<close>

record user_info =
  ui_username :: string
  ui_userId :: string
  ui_description :: "string option"
  ui_avatar :: "string option"
  ui_createTime :: int

text \<open>
  An element of \<^verbatim>\<open>data.postInfos\<close>. \<open>pi_content\<close> is the JSON text of \<^verbatim>\<open>p.content\<close> when
  that is present, so that \<^verbatim>\<open>JSON.stringify(p.content || [])\<close> is \<open>raw_content\<close>.
\<close>

record post_info =
  pi_postId :: string
  pi_title :: string
  pi_content :: "string option"
  pi_isSensitive :: bool
  pi_createTime :: int

record platform =
  userLookup :: "string \<Rightarrow> user_info option response"
  postsLookup :: "string \<Rightarrow> post_info list option response"

text \<open>\<^verbatim>\<open>x || ""\<close> on a string that may be missing.\<close>

definition or_empty :: "string option \<Rightarrow> string" where
  "or_empty x = (case x of None \<Rightarrow> [] | Some s \<Rightarrow> s)"

definition raw_content :: "string option \<Rightarrow> string" where
  "raw_content c = (case c of None \<Rightarrow> ''[]'' | Some j \<Rightarrow> j)"

section \<open>USER FETCH\<close>

definition new_user_row :: "user_info \<Rightarrow> user_row" where
  "new_user_row u =
     \<lparr>username = ui_username u, userId = ui_userId u,
      description = or_empty (ui_description u), avatar = or_empty (ui_avatar u),
      createdAt = ui_createTime u, lastPostSync = 0, lastCommentSync = 0,
      publicKey = None, privateKey = None\<rparr>"

definition ensureUser :: "platform \<Rightarrow> string \<Rightarrow> world \<Rightarrow> (error + user_row option) \<times> world" where
  "ensureUser pf uname w =
     (case select_user uname (users w) of
        Some user \<Rightarrow> (Inr (Some user), w)
      | None \<Rightarrow>
          (let w1 = w\<lparr>effects := effects w @ [RemoteUserFetch uname]\<rparr> in
           case userLookup pf uname of
             FetchRejected \<Rightarrow> (Inl NetworkError, w1)
           | NotOk \<Rightarrow> (Inr None, w1)
           | BodyRejected \<Rightarrow> (Inl BodyError, w1)
           | Ok None \<Rightarrow> (Inr None, w1)
           | Ok (Some u) \<Rightarrow>
               (case insert_user (new_user_row u) (users w1) of
                  None \<Rightarrow> (Inl UniqueConstraint, w1)
                | Some us \<Rightarrow>
                    (let w2 = w1\<lparr>users := us\<rparr>
                     in (Inr (select_user uname (users w2)), w2)))))"

section \<open>SYNC POSTS\<close>

definition new_post_row :: "string \<Rightarrow> post_info \<Rightarrow> post_row" where
  "new_post_row uname p =
     \<lparr>postId = pi_postId p, post_username = uname, title = pi_title p,
      rawContent = raw_content (pi_content p),
      sensitive = (if pi_isSensitive p then 1 else 0),
      post_createdAt = pi_createTime p\<rparr>"

text \<open>The \<^verbatim>\<open>for (const p of data.postInfos || [])\<close> loop.\<close>

fun upsert_posts :: "string \<Rightarrow> post_info list \<Rightarrow> post_row list \<Rightarrow> post_row list" where
  "upsert_posts uname [] ps = ps"
| "upsert_posts uname (p # rest) ps =
     upsert_posts uname rest (insert_or_replace_post (new_post_row uname p) ps)"

definition or_nil :: "'a list option \<Rightarrow> 'a list" where
  "or_nil x = (case x of None \<Rightarrow> [] | Some xs \<Rightarrow> xs)"

text \<open>
  \<open>ttl\<close> is \<^verbatim>\<open>SYNC_TTL\<close>. \<^verbatim>\<open>Date.now()\<close> is read twice, at the TTL gate (\<open>now1\<close>) and for
  the stamp after the loop (\<open>now2\<close>).
\<close>

definition syncPosts ::
  "int \<Rightarrow> platform \<Rightarrow> int \<Rightarrow> int \<Rightarrow> string \<Rightarrow> world \<Rightarrow> (error + unit) \<times> world" where
  "syncPosts ttl pf now1 now2 uname w =
     (case ensureUser pf uname w of
        (Inl e, w1) \<Rightarrow> (Inl e, w1)
      | (Inr None, w1) \<Rightarrow> (Inr (), w1)
      | (Inr (Some user), w1) \<Rightarrow>
          if \<not> hasFollowers uname w1 then (Inr (), w1)
          else if now1 - lastPostSync user < ttl then (Inr (), w1)
          else
            (let w2 = w1\<lparr>effects := effects w1 @ [RemotePostsFetch (userId user)]\<rparr> in
             case postsLookup pf (userId user) of
               FetchRejected \<Rightarrow> (Inl NetworkError, w2)
             | NotOk \<Rightarrow> (Inr (), w2)
             | BodyRejected \<Rightarrow> (Inl BodyError, w2)
             | Ok infos \<Rightarrow>
                 (let w3 = w2\<lparr>posts := upsert_posts uname (or_nil infos) (posts w2)\<rparr>
                  in (Inr (), w3\<lparr>users := update_lastPostSync now2 uname (users w3)\<rparr>))))"

section \<open>FEDIFY\<close>

text \<open>The dispatchers get the identifier as a bare string or as an object carrying it.\<close>

datatype actor_identifier = IdentObject string | IdentString string

fun identifier_username :: "actor_identifier \<Rightarrow> string" where
  "identifier_username (IdentObject s) = s"
| "identifier_username (IdentString s) = s"

subsection \<open>KeyPairs\<close>

datatype jwk_kind = Public | Private

text \<open>JavaScript truthiness of a nullable TEXT column: neither NULL nor the empty string.\<close>

definition truthy_text :: "string option \<Rightarrow> bool" where
  "truthy_text x = (case x of None \<Rightarrow> False | Some s \<Rightarrow> s \<noteq> [])"

text \<open>
  The collaborator's key functions are parameters: \<open>exportJwk k\<close> is the text
  \<^verbatim>\<open>JSON.stringify(await exportJwk(k))\<close>, \<open>importJwk t kind\<close> is
  \<^verbatim>\<open>await importJwk(JSON.parse(t), kind)\<close>, and \<open>fresh\<close> is the pair that
  \<^verbatim>\<open>generateCryptoKeyPair()\<close> gives if it is called.
\<close>

definition keyPairsDispatcher ::
  "('k \<Rightarrow> string) \<Rightarrow> (string \<Rightarrow> jwk_kind \<Rightarrow> 'k) \<Rightarrow> 'k \<times> 'k \<Rightarrow> actor_identifier \<Rightarrow> world
     \<Rightarrow> ('k \<times> 'k) list \<times> world" where
  "keyPairsDispatcher exportJwk importJwk fresh ident w =
     (let uname = identifier_username ident in
      case select_user uname (users w) of
        None \<Rightarrow> ([], w)
      | Some user \<Rightarrow>
          if truthy_text (publicKey user) \<and> truthy_text (privateKey user)
          then ([(importJwk (or_empty (publicKey user)) Public,
                  importJwk (or_empty (privateKey user)) Private)], w)
          else
            ([fresh],
             w\<lparr>users := update_keys (exportJwk (fst fresh)) (exportJwk (snd fresh)) uname (users w),
               effects := effects w @ [KeyPairGenerated uname]\<rparr>))"

subsection \<open>Outbox\<close>

text \<open>
  The values the handlers pass to the constructors of the vocabulary classes, by their
  JavaScript type: a string, a \<^verbatim>\<open>URL\<close> object (its href), a \<^verbatim>\<open>Date\<close>, a
  \<^verbatim>\<open>Temporal.Instant\<close> (both as epoch milliseconds) and a boolean.
\<close>

datatype vocab_value =
    VString string
  | VUrl string
  | VDate int
  | VInstant int
  | VBool bool

record note_object =
  note_id :: string
  attributedTo :: string
  content :: string
  published :: int
  note_sensitive :: bool

record create_activity =
  create_actor :: string
  create_to :: string
  create_object :: note_object

text \<open>
  The constructors of \<^verbatim>\<open>@fedify/vocab\<close> check the type of every field they are given and
  throw a \<^verbatim>\<open>TypeError\<close> otherwise (\<^verbatim>\<open>The id must be a URL.\<close>): \<open>id\<close>,
  \<open>attributedTo\<close>, \<open>actor\<close> and \<open>to\<close> take a \<^verbatim>\<open>URL\<close> object, \<open>content\<close> a string,
  \<open>published\<close> a \<^verbatim>\<open>Temporal.Instant\<close>, \<open>sensitive\<close> a boolean. \<open>new_Note\<close> is
  \<^verbatim>\<open>new Note({id, attributedTo, content, published, sensitive})\<close> and \<open>new_Create\<close> is
  \<^verbatim>\<open>new Create({actor, to, object})\<close>.
\<close>

definition new_Note ::
  "vocab_value \<Rightarrow> vocab_value \<Rightarrow> vocab_value \<Rightarrow> vocab_value \<Rightarrow> vocab_value
     \<Rightarrow> error + note_object" where
  "new_Note i a c p s =
     (case (i, a, c, p, s) of
        (VUrl i', VUrl a', VString c', VInstant p', VBool s') \<Rightarrow>
          Inr \<lparr>note_id = i', attributedTo = a', content = c', published = p',
               note_sensitive = s'\<rparr>
      | _ \<Rightarrow> Inl TypeError)"

definition new_Create :: "vocab_value \<Rightarrow> vocab_value \<Rightarrow> note_object \<Rightarrow> error + create_activity" where
  "new_Create a t obj =
     (case (a, t) of
        (VUrl a', VUrl t') \<Rightarrow> Inr \<lparr>create_actor = a', create_to = t', create_object = obj\<rparr>
      | _ \<Rightarrow> Inl TypeError)"

definition public_audience :: string where
  "public_audience = ''https://www.w3.org/ns/activitystreams#Public''"

text \<open>
  The callback of \<^verbatim>\<open>rows.map\<close>. \<open>actorUri\<close> is \<^verbatim>\<open>ctx.getActorUri(username).href\<close>, a
  string; \<open>domain\<close> is \<^verbatim>\<open>DOMAIN\<close>, and the note's id is a template string; the post's
  time is wrapped in \<^verbatim>\<open>new Date\<close>; only \<open>to\<close> is wrapped in \<^verbatim>\<open>new URL\<close>. The object
  literal of the Create is evaluated field by field, so the Note is constructed before the
  Create.
\<close>

definition to_create ::
  "string \<Rightarrow> (string \<Rightarrow> string) \<Rightarrow> string \<Rightarrow> post_row \<Rightarrow> error + create_activity" where
  "to_create domain actorUri uname p =
     (case new_Note (VString (domain @ ''/users/'' @ uname @ ''/posts/'' @ postId p))
                    (VString (actorUri uname))
                    (VString (title p))
                    (VDate (post_createdAt p))
                    (VBool (sensitive p \<noteq> 0)) of
        Inl e \<Rightarrow> Inl e
      | Inr obj \<Rightarrow> new_Create (VString (actorUri uname)) (VUrl public_audience) obj)"

text \<open>\<^verbatim>\<open>rows.map(f)\<close> for a callback that may throw: the first exception ends the map.\<close>

fun map_rows :: "('a \<Rightarrow> error + 'b) \<Rightarrow> 'a list \<Rightarrow> error + 'b list" where
  "map_rows f [] = Inr []"
| "map_rows f (x # xs) =
     (case f x of
        Inl e \<Rightarrow> Inl e
      | Inr y \<Rightarrow> (case map_rows f xs of Inl e \<Rightarrow> Inl e | Inr ys \<Rightarrow> Inr (y # ys)))"

definition outboxDispatcher ::
  "string \<Rightarrow> (string \<Rightarrow> string) \<Rightarrow> int \<Rightarrow> platform \<Rightarrow> int \<Rightarrow> int \<Rightarrow> actor_identifier \<Rightarrow> world
     \<Rightarrow> (error + create_activity list) \<times> world" where
  "outboxDispatcher domain actorUri ttl pf now1 now2 ident w =
     (let uname = identifier_username ident in
      if \<not> hasFollowers uname w then (Inr [], w)
      else
        (case syncPosts ttl pf now1 now2 uname w of
           (Inl e, w1) \<Rightarrow> (Inl e, w1)
         | (Inr _, w1) \<Rightarrow>
             (map_rows (to_create domain actorUri uname) (select_posts_desc uname (posts w1)), w1)))"

subsection \<open>Inbox\<close>

text \<open>\<^verbatim>\<open>pathname.split("/")\<close>\<close>

fun split_slash :: "string \<Rightarrow> string list" where
  "split_slash [] = [[]]"
| "split_slash (c # cs) =
     (if c = CHR ''/'' then [] # split_slash cs
      else (case split_slash cs of
              [] \<Rightarrow> [[c]]
            | seg # segs \<Rightarrow> (c # seg) # segs))"

text \<open>Reading an array at an index gives \<^verbatim>\<open>undefined\<close> (\<open>None\<close>) past its end.\<close>

definition at_index :: "'a list \<Rightarrow> nat \<Rightarrow> 'a option" where
  "at_index xs i = (if i < length xs then Some (xs ! i) else None)"

text \<open>A string that may be missing, read as a condition: missing and empty are both false.\<close>

definition truthy :: "string option \<Rightarrow> string option" where
  "truthy x = (case x of None \<Rightarrow> None | Some s \<Rightarrow> if s = [] then None else Some s)"

record inbox_ctx =
  parameters_identifier :: "string option"
  url_pathname :: "string option"

text \<open>
  \<^verbatim>\<open>ctx.parameters?.identifier || (ctx.url ? new URL(ctx.url).pathname.split("/")[2] : null)\<close>,
  followed by \<^verbatim>\<open>if (!username) return\<close>: \<open>None\<close> is the return.
\<close>

definition resolve_username :: "inbox_ctx \<Rightarrow> string option" where
  "resolve_username ctx =
     (case truthy (parameters_identifier ctx) of
        Some s \<Rightarrow> Some s
      | None \<Rightarrow>
          (case url_pathname ctx of
             None \<Rightarrow> None
           | Some path \<Rightarrow> truthy (at_index (split_slash path) 2)))"

text \<open>\<^verbatim>\<open>follow.id\<close>: a URL object, a string, or anything else.\<close>

datatype activity_id = IdUrl string | IdString string | IdOther

record follow =
  follow_actorId :: "string option"
  follow_id :: activity_id

fun followId_of :: "activity_id \<Rightarrow> string option" where
  "followId_of (IdUrl href) = truthy (Some href)"
| "followId_of (IdString s) = truthy (Some s)"
| "followId_of IdOther = None"

text \<open>
  The federation collaborator as the Follow handler uses it: the actor URI of a local name,
  whether \<^verbatim>\<open>new URL(s)\<close> accepts a string (it throws otherwise), and whether
  \<^verbatim>\<open>ctx.sendActivity\<close> resolves for an activity (it throws otherwise).
\<close>

record federation =
  getActorUri :: "string \<Rightarrow> string"
  parsesAsUrl :: "string \<Rightarrow> bool"
  delivers :: "accept \<Rightarrow> bool"

datatype follow_outcome =
    NoUsername | NoActor | NoFollowId | AcceptFailed | AcceptSent

text \<open>
  The Follow listener. The whole body is inside \<^verbatim>\<open>try\<close>, so an exception of the Accept path
  ends the handler (\<open>AcceptFailed\<close>) with what was written before it. \<open>uuid\<close> is
  \<^verbatim>\<open>crypto.randomUUID()\<close>.
\<close>

definition onFollow ::
  "string \<Rightarrow> federation \<Rightarrow> string \<Rightarrow> inbox_ctx \<Rightarrow> follow \<Rightarrow> world \<Rightarrow> follow_outcome \<times> world" where
  "onFollow domain fed uuid ctx fl w =
     (case resolve_username ctx of
        None \<Rightarrow> (NoUsername, w)
      | Some uname \<Rightarrow>
          (case truthy (follow_actorId fl) of
             None \<Rightarrow> (NoActor, w)
           | Some actorId \<Rightarrow>
               (let w1 = w\<lparr>followers := insert_or_ignore_follower (uname, actorId) (followers w)\<rparr> in
                case followId_of (follow_id fl) of
                  None \<Rightarrow> (NoFollowId, w1)
                | Some followId \<Rightarrow>
                    (let actorUriStr = getActorUri fed uname;
                         acceptId = domain @ ''/users/'' @ uname @ ''/accepts/'' @ uuid
                     in if \<not> (parsesAsUrl fed acceptId \<and> parsesAsUrl fed actorUriStr
                               \<and> parsesAsUrl fed followId)
                        then (AcceptFailed, w1)
                        else
                          (let acc = \<lparr>accept_id = acceptId, accept_actor = actorUriStr,
                                      accept_object = followId\<rparr>;
                               w2 = w1\<lparr>effects := effects w1 @ [SendActivity uname actorId acc]\<rparr>
                           in if delivers fed acc then (AcceptSent, w2) else (AcceptFailed, w2))))))"

text \<open>\<^verbatim>\<open>await undo.getObject()\<close>: a Follow, or anything else.\<close>

datatype wrapped = WrappedFollow | WrappedOther

record undo =
  undo_actorId :: "string option"
  undo_object :: wrapped

definition onUndo :: "inbox_ctx \<Rightarrow> undo \<Rightarrow> world \<Rightarrow> world" where
  "onUndo ctx un w =
     (case resolve_username ctx of
        None \<Rightarrow> w
      | Some uname \<Rightarrow>
          (case undo_object un of
             WrappedOther \<Rightarrow> w
           | WrappedFollow \<Rightarrow>
               (case truthy (undo_actorId un) of
                  None \<Rightarrow> w
                | Some actorId \<Rightarrow>
                    w\<lparr>followers := delete_follower uname actorId (followers w)\<rparr>)))"

section \<open>Concrete inputs\<close>

text \<open>
  The inputs at which the theorems below are instantiated: one platform account, a page of
  three posts created at 100, 300 and 200, one remote follower, a platform that answers and
  one whose fetches reject.
\<close>

definition alice_info :: user_info where
  "alice_info =
     \<lparr>ui_username = ''alice'', ui_userId = ''42'', ui_description = Some ''memes'',
      ui_avatar = None, ui_createTime = 1000\<rparr>"

definition post_a :: post_info where
  "post_a = \<lparr>pi_postId = ''a'', pi_title = ''first'', pi_content = None,
             pi_isSensitive = False, pi_createTime = 100\<rparr>"

definition post_b :: post_info where
  "post_b = \<lparr>pi_postId = ''b'', pi_title = ''second'', pi_content = Some ''[1]'',
             pi_isSensitive = True, pi_createTime = 300\<rparr>"

definition post_c :: post_info where
  "post_c = \<lparr>pi_postId = ''c'', pi_title = ''third'', pi_content = None,
             pi_isSensitive = False, pi_createTime = 200\<rparr>"


definition platform_up :: platform where
  "platform_up =
     \<lparr>userLookup = (\<lambda>u. if u = ''alice'' \<or> u = ''Alice'' then Ok (Some alice_info) else NotOk),
      postsLookup = (\<lambda>i. if i = ''42'' then Ok (Some [post_a, post_b, post_c]) else NotOk)\<rparr>"


definition platform_down :: platform where
  "platform_down = \<lparr>userLookup = (\<lambda>u. FetchRejected), postsLookup = (\<lambda>i. FetchRejected)\<rparr>"

definition platform_refusing :: platform where
  "platform_refusing = \<lparr>userLookup = (\<lambda>u. NotOk), postsLookup = (\<lambda>i. NotOk)\<rparr>"

definition bob :: string where
  "bob = ''https://remote.example/users/bob''"

definition empty_world :: world where
  "empty_world = \<lparr>users = [], posts = [], followers = [], effects = []\<rparr>"

definition lonely_world :: world where
  "lonely_world =
     \<lparr>users = [new_user_row alice_info], posts = [new_post_row ''alice'' post_a],
      followers = [], effects = []\<rparr>"

definition followed_world :: world where
  "followed_world =
     \<lparr>users = [new_user_row alice_info], posts = [],
      followers = [(''alice'', bob)], effects = []\<rparr>"

definition stocked_world :: world where
  "stocked_world =
     \<lparr>users = [new_user_row alice_info],
      posts = [new_post_row ''alice'' post_a, new_post_row ''alice'' post_b,
               new_post_row ''alice'' post_c],
      followers = [(''alice'', bob)], effects = []\<rparr>"

definition bridge_actor_uri :: "string \<Rightarrow> string" where
  "bridge_actor_uri u = ''https://bridge.example/users/'' @ u"

definition alice_inbox :: inbox_ctx where
  "alice_inbox = \<lparr>parameters_identifier = None, url_pathname = Some ''/users/alice/inbox''\<rparr>"


definition bridge_federation :: federation where
  "bridge_federation =
     \<lparr>getActorUri = (\<lambda>u. ''https://bridge.example/users/'' @ u),
      parsesAsUrl = (\<lambda>s. take 8 s = ''https://''),
      delivers = (\<lambda>a. True)\<rparr>"

definition follow_from_bob :: follow where
  "follow_from_bob =
     \<lparr>follow_actorId = Some bob, follow_id = IdUrl ''https://remote.example/follows/1''\<rparr>"

definition follow_without_actor :: follow where
  "follow_without_actor =
     \<lparr>follow_actorId = None, follow_id = IdUrl ''https://remote.example/follows/2''\<rparr>"


definition undo_from_bob :: undo where
  "undo_from_bob = \<lparr>undo_actorId = Some bob, undo_object = WrappedFollow\<rparr>"

text \<open>
  A stand-in for the collaborator's key functions: a key is its name, its export wraps the
  name in braces, and the import unwraps it.
\<close>

definition toy_export :: "string \<Rightarrow> string" where
  "toy_export k = CHR ''{'' # k @ ''}''"

definition toy_import :: "string \<Rightarrow> jwk_kind \<Rightarrow> string" where
  "toy_import t kind = butlast (tl t)"

section \<open>Properties of the store and of provisioning\<close>

lemma select_user_username: "select_user u us = Some r \<Longrightarrow> username r = u"
  by (auto simp: select_user_def find_Some_iff)

lemma ensureUser_existing:
  "select_user u (users w) = Some r \<Longrightarrow> ensureUser pf u w = (Inr (Some r), w)"
  by (simp add: ensureUser_def)

lemma ensureUser_frame:
  "followers (snd (ensureUser pf u w)) = followers w \<and> posts (snd (ensureUser pf u w)) = posts w"
  by (simp add: ensureUser_def Let_def split: option.split response.split)

lemma ensureUser_posts_fetches:
  "posts_fetches (snd (ensureUser pf u w)) = posts_fetches w"
  by (simp add: ensureUser_def Let_def posts_fetches_def split: option.split response.split)

lemma ensureUser_hasFollowers:
  "hasFollowers v (snd (ensureUser pf u w)) = hasFollowers v w"
  by (simp add: hasFollowers_def ensureUser_frame)

lemma ensureUser_returns_stored:
  "fst (ensureUser pf u w) = Inr (Some r) \<Longrightarrow> select_user u (users (snd (ensureUser pf u w))) = Some r"
  by (auto simp: ensureUser_def Let_def split: option.splits response.splits)

lemma select_user_update_lastPostSync:
  "select_user u us = Some r \<Longrightarrow>
   select_user u (update_lastPostSync t u us) = Some (r\<lparr>lastPostSync := t\<rparr>)"
  by (induction us) (auto simp: select_user_def update_lastPostSync_def)

lemma syncPosts_fetch_count:
  "posts_fetches (snd (syncPosts ttl pf now1 now2 u w)) =
     posts_fetches w +
       (if (\<exists>row. fst (ensureUser pf u w) = Inr (Some row) \<and> ttl \<le> now1 - lastPostSync row)
            \<and> hasFollowers u w then 1 else 0)"
proof (cases "ensureUser pf u w")
  case (Pair res w1)
  have pf1: "posts_fetches w1 = posts_fetches w"
    using ensureUser_posts_fetches [of pf u w] Pair by simp
  have hf: "hasFollowers u w1 = hasFollowers u w"
    using ensureUser_hasFollowers [of u pf u w] Pair by simp
  show ?thesis
  proof (cases res)
    case (Inl e)
    with Pair pf1 show ?thesis by (simp add: syncPosts_def)
  next
    case (Inr ro)
    show ?thesis
    proof (cases ro)
      case None
      with Pair Inr pf1 show ?thesis by (simp add: syncPosts_def)
    next
      case (Some row)
      with Pair Inr pf1 hf show ?thesis
        by (simp add: syncPosts_def Let_def posts_fetches_def split: response.split)
    qed
  qed
qed

lemma syncPosts_success:
  assumes "fst (ensureUser pf u w) = Inr (Some row)"
    and "hasFollowers u w"
    and "ttl \<le> now1 - lastPostSync row"
    and "postsLookup pf (userId row) = Ok infos"
  shows "syncPosts ttl pf now1 now2 u w =
     (Inr (), (snd (ensureUser pf u w))
        \<lparr>effects := effects (snd (ensureUser pf u w)) @ [RemotePostsFetch (userId row)],
         posts := upsert_posts u (or_nil infos) (posts w),
         users := update_lastPostSync now2 u (users (snd (ensureUser pf u w)))\<rparr>)"
proof (cases "ensureUser pf u w")
  case (Pair res w1)
  with assms(1) have res: "res = Inr (Some row)" by simp
  have hf: "hasFollowers u w1"
    using ensureUser_hasFollowers [of u pf u w] Pair assms(2) by simp
  have ps: "posts w1 = posts w"
    using ensureUser_frame [of pf u w] Pair by simp
  show ?thesis
    using Pair res hf ps assms(3,4) by (simp add: syncPosts_def Let_def)
qed

lemma syncPosts_unfollowed_existing:
  "select_user u (users w) = Some r \<Longrightarrow> \<not> hasFollowers u w \<Longrightarrow>
   syncPosts ttl pf now1 now2 u w = (Inr (), w)"
  by (simp add: syncPosts_def ensureUser_existing)

lemma syncPosts_success_next:
  assumes "fst (ensureUser pf u w) = Inr (Some row)"
    and "hasFollowers u w"
    and "ttl \<le> now1 - lastPostSync row"
    and "postsLookup pf (userId row) = Ok infos"
  shows "fst (ensureUser pf' u (snd (syncPosts ttl pf now1 now2 u w))) =
           Inr (Some (row\<lparr>lastPostSync := now2\<rparr>))"
    and "hasFollowers u (snd (syncPosts ttl pf now1 now2 u w))"
proof -
  let ?w1 = "snd (syncPosts ttl pf now1 now2 u w)"
  have st: "select_user u (users (snd (ensureUser pf u w))) = Some row"
    using assms(1) by (rule ensureUser_returns_stored)
  have us: "users ?w1 = update_lastPostSync now2 u (users (snd (ensureUser pf u w)))"
    using syncPosts_success [OF assms, of now2] by simp
  have "select_user u (users ?w1) = Some (row\<lparr>lastPostSync := now2\<rparr>)"
    using st us by (simp add: select_user_update_lastPostSync)
  then show "fst (ensureUser pf' u ?w1) = Inr (Some (row\<lparr>lastPostSync := now2\<rparr>))"
    by (simp add: ensureUser_existing)
  have "followers ?w1 = followers w"
    using syncPosts_success [OF assms, of now2] ensureUser_frame [of pf u w] by simp
  then show "hasFollowers u ?w1"
    using assms(2) by (simp add: hasFollowers_def)
qed

section \<open>Sync gating\<close>

text \<open>
  Claim C1. For every username, \<open>syncPosts\<close> issues a remote fetch of the user's posts if and
  only if all three gates pass: \<open>ensureUser\<close> returns a row, \<open>hasFollowers\<close> is true, and
  the time of the check minus the row's \<open>lastPostSync\<close> is at least \<open>SYNC_TTL\<close>; it then
  issues exactly one. For a user with no follower no posts fetch is issued whatever the time
  (and when the user's row exists the call does nothing at all). After a first call that went
  through the gates and whose fetch succeeded, a second call whose clock reading is less than
  \<open>SYNC_TTL\<close> after the first call's stamp issues no posts fetch, and one whose reading is
  \<open>SYNC_TTL\<close> or more after it issues exactly one.
\<close>

theorem syncPosts_gating:
  "posts_fetches (snd (syncPosts ttl pf now1 now2 u w)) =
     posts_fetches w +
       (if (\<exists>r. fst (ensureUser pf u w) = Inr (Some r) \<and> ttl \<le> now1 - lastPostSync r)
            \<and> hasFollowers u w then 1 else 0)
   \<and> (\<not> hasFollowers u w \<longrightarrow>
        posts_fetches (snd (syncPosts ttl pf now1 now2 u w)) = posts_fetches w
        \<and> (select_user u (users w) \<noteq> None \<longrightarrow> syncPosts ttl pf now1 now2 u w = (Inr (), w)))
   \<and> (fst (ensureUser pf u w) = Inr (Some row) \<and> hasFollowers u w
        \<and> ttl \<le> now1 - lastPostSync row \<and> postsLookup pf (userId row) = Ok infos \<longrightarrow>
        posts_fetches (snd (syncPosts ttl pf now1 now2 u w)) = posts_fetches w + 1
        \<and> (now3 - now2 < ttl \<longrightarrow>
             posts_fetches (snd (syncPosts ttl pf' now3 now4 u (snd (syncPosts ttl pf now1 now2 u w))))
               = posts_fetches (snd (syncPosts ttl pf now1 now2 u w)))
        \<and> (ttl \<le> now3 - now2 \<longrightarrow>
             posts_fetches (snd (syncPosts ttl pf' now3 now4 u (snd (syncPosts ttl pf now1 now2 u w))))
               = posts_fetches (snd (syncPosts ttl pf now1 now2 u w)) + 1))"
proof (intro conjI impI)
  show "posts_fetches (snd (syncPosts ttl pf now1 now2 u w)) =
     posts_fetches w +
       (if (\<exists>r. fst (ensureUser pf u w) = Inr (Some r) \<and> ttl \<le> now1 - lastPostSync r)
            \<and> hasFollowers u w then 1 else 0)"
    by (rule syncPosts_fetch_count)
next
  assume "\<not> hasFollowers u w"
  then show "posts_fetches (snd (syncPosts ttl pf now1 now2 u w)) = posts_fetches w"
    by (simp add: syncPosts_fetch_count)
next
  assume "\<not> hasFollowers u w" and "select_user u (users w) \<noteq> None"
  then show "syncPosts ttl pf now1 now2 u w = (Inr (), w)"
    by (auto simp: syncPosts_unfollowed_existing)
next
  assume h: "fst (ensureUser pf u w) = Inr (Some row) \<and> hasFollowers u w
        \<and> ttl \<le> now1 - lastPostSync row \<and> postsLookup pf (userId row) = Ok infos"
  then show "posts_fetches (snd (syncPosts ttl pf now1 now2 u w)) = posts_fetches w + 1"
    by (auto simp: syncPosts_fetch_count)
next
  assume h: "fst (ensureUser pf u w) = Inr (Some row) \<and> hasFollowers u w
        \<and> ttl \<le> now1 - lastPostSync row \<and> postsLookup pf (userId row) = Ok infos"
    and early: "now3 - now2 < ttl"
  let ?w1 = "snd (syncPosts ttl pf now1 now2 u w)"
  have e: "fst (ensureUser pf' u ?w1) = Inr (Some (row\<lparr>lastPostSync := now2\<rparr>))"
    using h by (intro syncPosts_success_next(1)) auto
  show "posts_fetches (snd (syncPosts ttl pf' now3 now4 u ?w1)) = posts_fetches ?w1"
    using e early by (simp add: syncPosts_fetch_count)
next
  assume h: "fst (ensureUser pf u w) = Inr (Some row) \<and> hasFollowers u w
        \<and> ttl \<le> now1 - lastPostSync row \<and> postsLookup pf (userId row) = Ok infos"
    and late: "ttl \<le> now3 - now2"
  let ?w1 = "snd (syncPosts ttl pf now1 now2 u w)"
  have e: "fst (ensureUser pf' u ?w1) = Inr (Some (row\<lparr>lastPostSync := now2\<rparr>))"
    using h by (intro syncPosts_success_next(1)) auto
  have f: "hasFollowers u ?w1"
    using h by (intro syncPosts_success_next(2)) auto
  show "posts_fetches (snd (syncPosts ttl pf' now3 now4 u ?w1)) = posts_fetches ?w1 + 1"
    using e f late by (simp add: syncPosts_fetch_count)
qed

text \<open>
  The gates at the concrete inputs: a followed account is fetched once, not again 200 seconds
  later, and once more 300 seconds later; the same account without a follower is not touched.
\<close>

theorem syncPosts_gating_witness:
  "hasFollowers ''alice'' followed_world
   \<and> posts_fetches (snd (syncPosts 300000 platform_up 1000000 1000005 ''alice'' followed_world)) = 1
   \<and> posts_fetches (snd (syncPosts 300000 platform_up 1200000 1200005 ''alice''
        (snd (syncPosts 300000 platform_up 1000000 1000005 ''alice'' followed_world)))) = 1
   \<and> posts_fetches (snd (syncPosts 300000 platform_down 1300005 1300009 ''alice''
        (snd (syncPosts 300000 platform_up 1000000 1000005 ''alice'' followed_world)))) = 2
   \<and> \<not> hasFollowers ''alice'' lonely_world
   \<and> syncPosts 300000 platform_up 1000000 1000005 ''alice'' lonely_world = (Inr (), lonely_world)"
proof -
  have a: "fst (ensureUser platform_up ''alice'' followed_world) = Inr (Some (new_user_row alice_info))"
    by (simp add: ensureUser_def select_user_def followed_world_def new_user_row_def alice_info_def)
  have b: "hasFollowers ''alice'' followed_world"
    by (simp add: hasFollowers_def count_followers_def followed_world_def)
  have c: "postsLookup platform_up (userId (new_user_row alice_info)) = Ok (Some [post_a, post_b, post_c])"
    by (simp add: platform_up_def new_user_row_def alice_info_def)
  have d: "posts_fetches followed_world = 0" "lastPostSync (new_user_row alice_info) = 0"
    by (simp_all add: posts_fetches_def followed_world_def new_user_row_def)
  have e: "\<not> hasFollowers ''alice'' lonely_world" "select_user ''alice'' (users lonely_world) \<noteq> None"
    by (simp_all add: hasFollowers_def count_followers_def lonely_world_def select_user_def
        new_user_row_def alice_info_def)
  show ?thesis
    using a b c d e
      syncPosts_gating [of 300000 platform_up 1000000 1000005 "''alice''" followed_world
        "new_user_row alice_info" "Some [post_a, post_b, post_c]" 1200000 platform_up 1200005]
      syncPosts_gating [of 300000 platform_up 1000000 1000005 "''alice''" followed_world
        "new_user_row alice_info" "Some [post_a, post_b, post_c]" 1300005 platform_down 1300009]
      syncPosts_gating [of 300000 platform_up 1000000 1000005 "''alice''" lonely_world]
    by simp
qed

section \<open>Provisioning\<close>

lemma find_append:
  "find P (xs @ ys) = (case find P xs of None \<Rightarrow> find P ys | Some x \<Rightarrow> Some x)"
  by (induction xs) auto

lemma ensureUser_fresh_success:
  assumes "select_user u (users w) = None" and "fst (ensureUser pf u w) = Inr (Some r)"
  shows "\<exists>info. userLookup pf u = Ok (Some info) \<and> r = new_user_row info"
    and "ensureUser pf u w =
           (Inr (Some r), w\<lparr>effects := effects w @ [RemoteUserFetch u], users := users w @ [r]\<rparr>)"
proof -
  obtain info where i: "userLookup pf u = Ok (Some info)"
    using assms by (auto simp: ensureUser_def Let_def split: response.splits option.splits)
  obtain us where ins: "insert_user (new_user_row info) (users w) = Some us"
    using assms i by (auto simp: ensureUser_def Let_def split: option.splits)
  then have us: "us = users w @ [new_user_row info]"
    by (auto simp: insert_user_def split: if_splits)
  have sel: "select_user u us = Some r"
    using assms i ins by (simp add: ensureUser_def Let_def)
  have "select_user u (users w @ [new_user_row info]) = Some (new_user_row info)"
    using sel us assms(1) by (auto simp: select_user_def find_append split: if_splits)
  with sel us have r: "r = new_user_row info" by simp
  with i show "\<exists>info. userLookup pf u = Ok (Some info) \<and> r = new_user_row info" by blast
  show "ensureUser pf u w =
           (Inr (Some r), w\<lparr>effects := effects w @ [RemoteUserFetch u], users := users w @ [r]\<rparr>)"
    using assms(1) i ins us sel r by (simp add: ensureUser_def Let_def)
qed

lemma ensureUser_again:
  assumes "fst (ensureUser pf u w) = Inr (Some r)"
  shows "ensureUser pf' u (snd (ensureUser pf u w)) = (Inr (Some r), snd (ensureUser pf u w))"
  using ensureUser_returns_stored [OF assms] by (rule ensureUser_existing)

lemma ensureUser_twice_fresh:
  assumes "select_user u (users w) = None" and "fst (ensureUser pf u w) = Inr (Some r)"
  shows "snd (ensureUser pf' u (snd (ensureUser pf u w))) =
           w\<lparr>effects := effects w @ [RemoteUserFetch u], users := users w @ [r]\<rparr>"
proof -
  have "snd (ensureUser pf' u (snd (ensureUser pf u w))) = snd (ensureUser pf u w)"
    using ensureUser_again [OF assms(2), of pf'] by simp
  also have "\<dots> = w\<lparr>effects := effects w @ [RemoteUserFetch u], users := users w @ [r]\<rparr>"
    using ensureUser_fresh_success(2) [OF assms] by simp
  finally show ?thesis .
qed

text \<open>
  Claim C2. \<open>ensureUser\<close> is idempotent. If a row exists for the username it is returned as
  it is, with no remote call and no write (the world is unchanged). A call that returns a row
  leaves a world in which a second call for the same username, whatever the platform would
  answer, is a pure read that returns that same row. When no row existed before the first
  call, the two calls together have issued exactly one user lookup and inserted exactly one
  row, the returned one, and touched nothing else.
\<close>

theorem ensureUser_idempotent:
  "(select_user u (users w) = Some r \<longrightarrow> ensureUser pf u w = (Inr (Some r), w))
   \<and> (fst (ensureUser pf u w) = Inr (Some r) \<longrightarrow>
        ensureUser pf' u (snd (ensureUser pf u w)) = (Inr (Some r), snd (ensureUser pf u w)))
   \<and> (select_user u (users w) = None \<and> fst (ensureUser pf u w) = Inr (Some r) \<longrightarrow>
        (\<exists>info. userLookup pf u = Ok (Some info) \<and> r = new_user_row info)
        \<and> users (snd (ensureUser pf' u (snd (ensureUser pf u w)))) = users w @ [r]
        \<and> effects (snd (ensureUser pf' u (snd (ensureUser pf u w)))) = effects w @ [RemoteUserFetch u]
        \<and> user_fetches (snd (ensureUser pf' u (snd (ensureUser pf u w)))) = user_fetches w + 1
        \<and> posts (snd (ensureUser pf' u (snd (ensureUser pf u w)))) = posts w
        \<and> followers (snd (ensureUser pf' u (snd (ensureUser pf u w)))) = followers w)"
proof (intro conjI impI)
  assume "select_user u (users w) = Some r"
  then show "ensureUser pf u w = (Inr (Some r), w)" by (rule ensureUser_existing)
next
  assume "fst (ensureUser pf u w) = Inr (Some r)"
  then show "ensureUser pf' u (snd (ensureUser pf u w)) = (Inr (Some r), snd (ensureUser pf u w))"
    by (rule ensureUser_again)
next
  assume h: "select_user u (users w) = None \<and> fst (ensureUser pf u w) = Inr (Some r)"
  then show "\<exists>info. userLookup pf u = Ok (Some info) \<and> r = new_user_row info"
    using ensureUser_fresh_success(1) by blast
next
  assume h: "select_user u (users w) = None \<and> fst (ensureUser pf u w) = Inr (Some r)"
  then show "users (snd (ensureUser pf' u (snd (ensureUser pf u w)))) = users w @ [r]"
    by (simp add: ensureUser_twice_fresh)
next
  assume h: "select_user u (users w) = None \<and> fst (ensureUser pf u w) = Inr (Some r)"
  then show "effects (snd (ensureUser pf' u (snd (ensureUser pf u w)))) = effects w @ [RemoteUserFetch u]"
    by (simp add: ensureUser_twice_fresh)
next
  assume h: "select_user u (users w) = None \<and> fst (ensureUser pf u w) = Inr (Some r)"
  then show "user_fetches (snd (ensureUser pf' u (snd (ensureUser pf u w)))) = user_fetches w + 1"
    by (simp add: ensureUser_twice_fresh user_fetches_def)
next
  assume h: "select_user u (users w) = None \<and> fst (ensureUser pf u w) = Inr (Some r)"
  then show "posts (snd (ensureUser pf' u (snd (ensureUser pf u w)))) = posts w"
    by (simp add: ensureUser_twice_fresh)
next
  assume h: "select_user u (users w) = None \<and> fst (ensureUser pf u w) = Inr (Some r)"
  then show "followers (snd (ensureUser pf' u (snd (ensureUser pf u w)))) = followers w"
    by (simp add: ensureUser_twice_fresh)
qed

text \<open>
  Provisioning \<open>alice\<close> in the empty store and asking again while the platform is down; and
  asking for an account that is already stored.
\<close>

theorem ensureUser_idempotent_witness:
  "select_user ''alice'' (users empty_world) = None
   \<and> fst (ensureUser platform_up ''alice'' empty_world) = Inr (Some (new_user_row alice_info))
   \<and> ensureUser platform_down ''alice'' (snd (ensureUser platform_up ''alice'' empty_world))
       = (Inr (Some (new_user_row alice_info)), snd (ensureUser platform_up ''alice'' empty_world))
   \<and> users (snd (ensureUser platform_down ''alice'' (snd (ensureUser platform_up ''alice'' empty_world))))
       = [new_user_row alice_info]
   \<and> user_fetches (snd (ensureUser platform_down ''alice''
        (snd (ensureUser platform_up ''alice'' empty_world)))) = 1
   \<and> select_user ''alice'' (users lonely_world) = Some (new_user_row alice_info)
   \<and> ensureUser platform_down ''alice'' lonely_world = (Inr (Some (new_user_row alice_info)), lonely_world)"
proof -
  have a: "select_user ''alice'' (users empty_world) = None"
    by (simp add: select_user_def empty_world_def)
  have b: "fst (ensureUser platform_up ''alice'' empty_world) = Inr (Some (new_user_row alice_info))"
    by (simp add: ensureUser_def select_user_def empty_world_def platform_up_def insert_user_def
        new_user_row_def alice_info_def)
  have c: "select_user ''alice'' (users lonely_world) = Some (new_user_row alice_info)"
    by (simp add: select_user_def lonely_world_def new_user_row_def alice_info_def)
  have d: "users empty_world = []" "user_fetches empty_world = 0"
    by (simp_all add: empty_world_def user_fetches_def)
  note fresh = ensureUser_idempotent
      [of "''alice''" empty_world "new_user_row alice_info" platform_up platform_down]
  note cached = ensureUser_idempotent
      [of "''alice''" lonely_world "new_user_row alice_info" platform_down platform_down]
  have e: "ensureUser platform_down ''alice'' (snd (ensureUser platform_up ''alice'' empty_world))
       = (Inr (Some (new_user_row alice_info)), snd (ensureUser platform_up ''alice'' empty_world))"
    using fresh b by blast
  have f: "users (snd (ensureUser platform_down ''alice'' (snd (ensureUser platform_up ''alice'' empty_world))))
       = users empty_world @ [new_user_row alice_info]"
    using fresh a b by blast
  have g: "user_fetches (snd (ensureUser platform_down ''alice''
        (snd (ensureUser platform_up ''alice'' empty_world)))) = user_fetches empty_world + 1"
    using fresh a b by blast
  have h: "ensureUser platform_down ''alice'' lonely_world = (Inr (Some (new_user_row alice_info)), lonely_world)"
    using cached c by blast
  from f g have "users (snd (ensureUser platform_down ''alice'' (snd (ensureUser platform_up ''alice'' empty_world))))
       = [new_user_row alice_info]"
    and "user_fetches (snd (ensureUser platform_down ''alice''
        (snd (ensureUser platform_up ''alice'' empty_world)))) = 1"
    by (simp_all only: d append_Nil add_0)
  with a b c e h show ?thesis by blast
qed

text \<open>
  Claim C10, as amended. The new row is inserted under the payload's username and the row
  returned is read back under the requested one, so any row \<open>ensureUser\<close> returns has the
  requested username. If no row exists for the requested username, the payload's username
  differs from it, and no row exists under the payload's username either, then the row is
  persisted under the payload's username while \<open>ensureUser\<close> returns no user.
\<close>

theorem ensureUser_payload_username:
  "(fst (ensureUser pf u w) = Inr (Some r) \<longrightarrow> username r = u)
   \<and> (select_user u (users w) = None \<and> userLookup pf u = Ok (Some info)
        \<and> ui_username info \<noteq> u \<and> ui_username info \<notin> set (map username (users w)) \<longrightarrow>
        ensureUser pf u w =
          (Inr None, w\<lparr>effects := effects w @ [RemoteUserFetch u],
                        users := users w @ [new_user_row info]\<rparr>)
        \<and> select_user (ui_username info) (users (snd (ensureUser pf u w))) = Some (new_user_row info))"
proof (intro conjI impI)
  assume "fst (ensureUser pf u w) = Inr (Some r)"
  then show "username r = u"
    using ensureUser_returns_stored select_user_username by blast
next
  assume h: "select_user u (users w) = None \<and> userLookup pf u = Ok (Some info)
        \<and> ui_username info \<noteq> u \<and> ui_username info \<notin> set (map username (users w))"
  have n: "username (new_user_row info) = ui_username info"
    by (simp add: new_user_row_def)
  have "select_user u (users w @ [new_user_row info]) = None"
    using h n by (auto simp: select_user_def find_append split: option.splits)
  then show e: "ensureUser pf u w =
          (Inr None, w\<lparr>effects := effects w @ [RemoteUserFetch u],
                        users := users w @ [new_user_row info]\<rparr>)"
    using h n by (simp add: ensureUser_def Let_def insert_user_def)
  have "find (\<lambda>r. username r = ui_username info) (users w) = None"
    using h by (force simp: find_None_iff)
  then have "select_user (ui_username info) (users w @ [new_user_row info]) = Some (new_user_row info)"
    using n by (simp add: select_user_def find_append)
  with e show "select_user (ui_username info) (users (snd (ensureUser pf u w))) = Some (new_user_row info)"
    by simp
qed

text \<open>
  The platform answers a request for \<open>Alice\<close> with the account \<open>alice\<close>: in the empty
  store the row is written under \<open>alice\<close> and the caller gets no user.
\<close>

theorem ensureUser_payload_username_witness:
  "fst (ensureUser platform_up ''alice'' empty_world) = Inr (Some (new_user_row alice_info))
   \<and> username (new_user_row alice_info) = ''alice''
   \<and> select_user ''Alice'' (users empty_world) = None
   \<and> userLookup platform_up ''Alice'' = Ok (Some alice_info)
   \<and> ui_username alice_info \<noteq> ''Alice''
   \<and> fst (ensureUser platform_up ''Alice'' empty_world) = Inr None
   \<and> users (snd (ensureUser platform_up ''Alice'' empty_world)) = [new_user_row alice_info]
   \<and> select_user ''alice'' (users (snd (ensureUser platform_up ''Alice'' empty_world)))
       = Some (new_user_row alice_info)"
proof -
  have a: "fst (ensureUser platform_up ''alice'' empty_world) = Inr (Some (new_user_row alice_info))"
    by (simp add: ensureUser_def select_user_def empty_world_def platform_up_def insert_user_def
        new_user_row_def alice_info_def)
  have b: "select_user ''Alice'' (users empty_world) = None"
    "userLookup platform_up ''Alice'' = Ok (Some alice_info)"
    "ui_username alice_info \<noteq> ''Alice''"
    "ui_username alice_info \<notin> set (map username (users empty_world))"
    "users empty_world = []"
    by (simp_all add: select_user_def empty_world_def platform_up_def alice_info_def)
  note same = ensureUser_payload_username
      [of platform_up "''alice''" empty_world "new_user_row alice_info"]
  note other = ensureUser_payload_username
      [of platform_up "''Alice''" empty_world _ alice_info]
  have c: "username (new_user_row alice_info) = ''alice''"
    using same a by blast
  have d: "ensureUser platform_up ''Alice'' empty_world =
          (Inr None, empty_world\<lparr>effects := effects empty_world @ [RemoteUserFetch ''Alice''],
                        users := users empty_world @ [new_user_row alice_info]\<rparr>)"
    and e: "select_user (ui_username alice_info) (users (snd (ensureUser platform_up ''Alice'' empty_world)))
       = Some (new_user_row alice_info)"
    using other b(1-4) by blast+
  have f: "fst (ensureUser platform_up ''Alice'' empty_world) = Inr None"
    and g: "users (snd (ensureUser platform_up ''Alice'' empty_world)) = [new_user_row alice_info]"
    using d b(5) by simp_all
  have h: "select_user ''alice'' (users (snd (ensureUser platform_up ''Alice'' empty_world)))
       = Some (new_user_row alice_info)"
    using e by (simp add: alice_info_def)
  from a b(1-3) c f g h show ?thesis by blast
qed

text \<open>
  Claim C10 as first stated fails when a row already exists under the payload's username, as
  it does on the second request for \<open>Alice\<close>: the insert violates the primary key, so the
  call ends with that error instead of returning no user, and nothing is written.
\<close>

theorem ensureUser_payload_username_counterexample:
  "select_user ''Alice'' (users lonely_world) = None
   \<and> userLookup platform_up ''Alice'' = Ok (Some alice_info)
   \<and> ui_username alice_info \<noteq> ''Alice''
   \<and> fst (ensureUser platform_up ''Alice'' lonely_world) = Inl UniqueConstraint
   \<and> users (snd (ensureUser platform_up ''Alice'' lonely_world)) = users lonely_world"
  by (simp add: ensureUser_def select_user_def lonely_world_def platform_up_def insert_user_def
        new_user_row_def alice_info_def)

section \<open>Key pairs\<close>

lemma select_user_update_keys:
  "select_user u us = Some r \<Longrightarrow>
   select_user u (update_keys pub priv u us) = Some (r\<lparr>publicKey := Some pub, privateKey := Some priv\<rparr>)"
  by (induction us) (auto simp: select_user_def update_keys_def)

lemma keyPairsDispatcher_stored:
  assumes "select_user (identifier_username ident) (users w) = Some user"
    and "truthy_text (publicKey user)" and "truthy_text (privateKey user)"
  shows "keyPairsDispatcher exportJwk importJwk fresh ident w =
           ([(importJwk (or_empty (publicKey user)) Public,
              importJwk (or_empty (privateKey user)) Private)], w)"
  using assms by (simp add: keyPairsDispatcher_def Let_def)

lemma keyPairsDispatcher_generates:
  assumes "select_user (identifier_username ident) (users w) = Some user"
    and "\<not> (truthy_text (publicKey user) \<and> truthy_text (privateKey user))"
  shows "keyPairsDispatcher exportJwk importJwk fresh ident w =
           ([fresh],
            w\<lparr>users := update_keys (exportJwk (fst fresh)) (exportJwk (snd fresh))
                         (identifier_username ident) (users w),
              effects := effects w @ [KeyPairGenerated (identifier_username ident)]\<rparr>)"
  using assms by (auto simp: keyPairsDispatcher_def Let_def)

text \<open>
  Claim C3. The key-pair dispatcher generates at most once per user. For an existing user
  whose row carries both exports, it returns their imports and leaves the world as it is:
  nothing is generated or written. Otherwise it generates, returns the fresh pair and
  persists both exports on the row. Either way a second invocation generates and writes
  nothing, and the keys it returns have the same exports as the keys of the first. The
  collaborator is assumed to export a key as a non-empty text and to export the import of an
  export as that same export.
\<close>

theorem keyPairsDispatcher_once:
  assumes user: "select_user (identifier_username ident) (users w) = Some user"
    and nonempty: "exportJwk (fst fresh) \<noteq> []" "exportJwk (snd fresh) \<noteq> []"
    and roundtrip:
      "exportJwk (importJwk (exportJwk (fst fresh)) Public) = exportJwk (fst fresh)"
      "exportJwk (importJwk (exportJwk (snd fresh)) Private) = exportJwk (snd fresh)"
  shows
    "(truthy_text (publicKey user) \<and> truthy_text (privateKey user) \<longrightarrow>
        keyPairsDispatcher exportJwk importJwk fresh ident w =
          ([(importJwk (or_empty (publicKey user)) Public,
             importJwk (or_empty (privateKey user)) Private)], w))
     \<and> (\<not> (truthy_text (publicKey user) \<and> truthy_text (privateKey user)) \<longrightarrow>
        fst (keyPairsDispatcher exportJwk importJwk fresh ident w) = [fresh]
        \<and> key_generations (snd (keyPairsDispatcher exportJwk importJwk fresh ident w))
             = key_generations w + 1
        \<and> select_user (identifier_username ident)
             (users (snd (keyPairsDispatcher exportJwk importJwk fresh ident w)))
             = Some (user\<lparr>publicKey := Some (exportJwk (fst fresh)),
                          privateKey := Some (exportJwk (snd fresh))\<rparr>))
     \<and> snd (keyPairsDispatcher exportJwk importJwk fresh' ident
              (snd (keyPairsDispatcher exportJwk importJwk fresh ident w)))
         = snd (keyPairsDispatcher exportJwk importJwk fresh ident w)
     \<and> map (\<lambda>kp. (exportJwk (fst kp), exportJwk (snd kp)))
           (fst (keyPairsDispatcher exportJwk importJwk fresh' ident
              (snd (keyPairsDispatcher exportJwk importJwk fresh ident w))))
         = map (\<lambda>kp. (exportJwk (fst kp), exportJwk (snd kp)))
             (fst (keyPairsDispatcher exportJwk importJwk fresh ident w))
     \<and> key_generations (snd (keyPairsDispatcher exportJwk importJwk fresh' ident
              (snd (keyPairsDispatcher exportJwk importJwk fresh ident w))))
         \<le> key_generations w + 1"
proof (cases "truthy_text (publicKey user) \<and> truthy_text (privateKey user)")
  case True
  have first: "keyPairsDispatcher exportJwk importJwk fresh ident w =
          ([(importJwk (or_empty (publicKey user)) Public,
             importJwk (or_empty (privateKey user)) Private)], w)"
    using user True by (simp add: keyPairsDispatcher_stored)
  have second: "keyPairsDispatcher exportJwk importJwk fresh' ident w =
          ([(importJwk (or_empty (publicKey user)) Public,
             importJwk (or_empty (privateKey user)) Private)], w)"
    using user True by (simp add: keyPairsDispatcher_stored)
  show ?thesis using True first second by simp
next
  case False
  let ?u = "identifier_username ident"
  let ?w1 = "w\<lparr>users := update_keys (exportJwk (fst fresh)) (exportJwk (snd fresh)) ?u (users w),
              effects := effects w @ [KeyPairGenerated ?u]\<rparr>"
  let ?user1 = "user\<lparr>publicKey := Some (exportJwk (fst fresh)),
                          privateKey := Some (exportJwk (snd fresh))\<rparr>"
  have first: "keyPairsDispatcher exportJwk importJwk fresh ident w = ([fresh], ?w1)"
    using user False by (rule keyPairsDispatcher_generates)
  have stored: "select_user ?u (users ?w1) = Some ?user1"
    using user by (simp add: select_user_update_keys)
  have t: "truthy_text (publicKey ?user1)" "truthy_text (privateKey ?user1)"
    using nonempty by (simp_all add: truthy_text_def)
  have second: "keyPairsDispatcher exportJwk importJwk fresh' ident ?w1 =
          ([(importJwk (exportJwk (fst fresh)) Public,
             importJwk (exportJwk (snd fresh)) Private)], ?w1)"
    using keyPairsDispatcher_stored [OF stored t, of exportJwk importJwk fresh']
    by (simp add: or_empty_def)
  have gen: "key_generations ?w1 = key_generations w + 1"
    by (simp add: key_generations_def)
  show ?thesis
    using False first second stored gen roundtrip by auto
qed

text \<open>
  The first invocation for \<open>alice\<close>, whose row has no keys, generates once; the second
  returns keys with the exports of the first and generates nothing.
\<close>

theorem keyPairsDispatcher_once_witness:
  "select_user (identifier_username (IdentString ''alice'')) (users followed_world)
      = Some (new_user_row alice_info)
   \<and> toy_export ''pub'' \<noteq> [] \<and> toy_export ''priv'' \<noteq> []
   \<and> toy_export (toy_import (toy_export ''pub'') Public) = toy_export ''pub''
   \<and> toy_export (toy_import (toy_export ''priv'') Private) = toy_export ''priv''
   \<and> \<not> (truthy_text (publicKey (new_user_row alice_info))
         \<and> truthy_text (privateKey (new_user_row alice_info)))
   \<and> fst (keyPairsDispatcher toy_export toy_import (''pub'', ''priv'') (IdentString ''alice'')
            followed_world) = [(''pub'', ''priv'')]
   \<and> key_generations (snd (keyPairsDispatcher toy_export toy_import (''pub'', ''priv'')
            (IdentString ''alice'') followed_world)) = 1
   \<and> map (\<lambda>kp. (toy_export (fst kp), toy_export (snd kp)))
        (fst (keyPairsDispatcher toy_export toy_import (''other'', ''pair'') (IdentObject ''alice'')
           (snd (keyPairsDispatcher toy_export toy_import (''pub'', ''priv'')
              (IdentObject ''alice'') followed_world))))
       = [(''{pub}'', ''{priv}'')]
   \<and> key_generations (snd (keyPairsDispatcher toy_export toy_import (''other'', ''pair'')
        (IdentObject ''alice'')
           (snd (keyPairsDispatcher toy_export toy_import (''pub'', ''priv'')
              (IdentObject ''alice'') followed_world)))) = 1"
proof -
  have a: "select_user (identifier_username (IdentString ''alice'')) (users followed_world)
      = Some (new_user_row alice_info)"
    "select_user (identifier_username (IdentObject ''alice'')) (users followed_world)
      = Some (new_user_row alice_info)"
    by (simp_all add: select_user_def followed_world_def new_user_row_def alice_info_def)
  have b: "toy_export (fst (''pub'', ''priv'')) \<noteq> []" "toy_export (snd (''pub'', ''priv'')) \<noteq> []"
    "toy_export (toy_import (toy_export (fst (''pub'', ''priv''))) Public) = toy_export (fst (''pub'', ''priv''))"
    "toy_export (toy_import (toy_export (snd (''pub'', ''priv''))) Private) = toy_export (snd (''pub'', ''priv''))"
    by (simp_all add: toy_export_def toy_import_def)
  have c: "\<not> (truthy_text (publicKey (new_user_row alice_info))
         \<and> truthy_text (privateKey (new_user_row alice_info)))"
    by (simp add: truthy_text_def new_user_row_def)
  have d: "key_generations followed_world = 0"
    by (simp add: key_generations_def followed_world_def)
  note str = keyPairsDispatcher_once [OF a(1) b, of "(''other'', ''pair'')"]
  note obj = keyPairsDispatcher_once [OF a(2) b, of "(''other'', ''pair'')"]
  have e: "fst (keyPairsDispatcher toy_export toy_import (''pub'', ''priv'') (IdentString ''alice'')
            followed_world) = [(''pub'', ''priv'')]"
    and f: "key_generations (snd (keyPairsDispatcher toy_export toy_import (''pub'', ''priv'')
            (IdentString ''alice'') followed_world)) = key_generations followed_world + 1"
    using str c by blast+
  have g: "fst (keyPairsDispatcher toy_export toy_import (''pub'', ''priv'') (IdentObject ''alice'')
            followed_world) = [(''pub'', ''priv'')]"
    and h: "key_generations (snd (keyPairsDispatcher toy_export toy_import (''pub'', ''priv'')
            (IdentObject ''alice'') followed_world)) = key_generations followed_world + 1"
    using obj c by blast+
  have i: "map (\<lambda>kp. (toy_export (fst kp), toy_export (snd kp)))
        (fst (keyPairsDispatcher toy_export toy_import (''other'', ''pair'') (IdentObject ''alice'')
           (snd (keyPairsDispatcher toy_export toy_import (''pub'', ''priv'')
              (IdentObject ''alice'') followed_world))))
       = map (\<lambda>kp. (toy_export (fst kp), toy_export (snd kp)))
          (fst (keyPairsDispatcher toy_export toy_import (''pub'', ''priv'') (IdentObject ''alice'')
            followed_world))"
    and j: "snd (keyPairsDispatcher toy_export toy_import (''other'', ''pair'') (IdentObject ''alice'')
           (snd (keyPairsDispatcher toy_export toy_import (''pub'', ''priv'')
              (IdentObject ''alice'') followed_world)))
       = snd (keyPairsDispatcher toy_export toy_import (''pub'', ''priv'')
              (IdentObject ''alice'') followed_world)"
    using obj by blast+
  have k: "map (\<lambda>kp. (toy_export (fst kp), toy_export (snd kp)))
        (fst (keyPairsDispatcher toy_export toy_import (''other'', ''pair'') (IdentObject ''alice'')
           (snd (keyPairsDispatcher toy_export toy_import (''pub'', ''priv'')
              (IdentObject ''alice'') followed_world))))
       = [(''{pub}'', ''{priv}'')]"
    unfolding i g by (simp add: toy_export_def)
  have l: "key_generations (snd (keyPairsDispatcher toy_export toy_import (''other'', ''pair'')
        (IdentObject ''alice'')
           (snd (keyPairsDispatcher toy_export toy_import (''pub'', ''priv'')
              (IdentObject ''alice'') followed_world)))) = 1"
    unfolding j h d by simp
  have m: "key_generations (snd (keyPairsDispatcher toy_export toy_import (''pub'', ''priv'')
            (IdentString ''alice'') followed_world)) = 1"
    unfolding f d by simp
  have b': "toy_export ''pub'' \<noteq> []" "toy_export ''priv'' \<noteq> []"
    "toy_export (toy_import (toy_export ''pub'') Public) = toy_export ''pub''"
    "toy_export (toy_import (toy_export ''priv'') Private) = toy_export ''priv''"
    using b by simp_all
  from a(1) b' c e m k l show ?thesis by blast
qed

section \<open>Post storage\<close>













section \<open>The follow handshake\<close>

lemma insert_or_ignore_follower_member:
  "r \<in> set (insert_or_ignore_follower r fs)"
  by (simp add: insert_or_ignore_follower_def)

lemma insert_or_ignore_follower_idem:
  "insert_or_ignore_follower r (insert_or_ignore_follower r fs) = insert_or_ignore_follower r fs"
  by (simp add: insert_or_ignore_follower_def)

lemma insert_or_ignore_follower_distinct:
  "distinct fs \<Longrightarrow> distinct (insert_or_ignore_follower r fs)"
  by (simp add: insert_or_ignore_follower_def)

lemma delete_follower_absent:
  "(u, a) \<notin> set (delete_follower u a fs)"
  by (auto simp: delete_follower_def)

lemma delete_follower_idem:
  "delete_follower u a (delete_follower u a fs) = delete_follower u a fs"
  by (simp add: delete_follower_def)

lemma delete_after_insert:
  "delete_follower u a (insert_or_ignore_follower (u, a) fs) = delete_follower u a fs"
  by (simp add: delete_follower_def insert_or_ignore_follower_def)

lemma count_followers_member:
  "(u, a) \<in> set fs \<Longrightarrow> 0 < count_followers u fs"
  by (induction fs) (auto simp: count_followers_def)

lemma distinct_member_once:
  "distinct xs \<Longrightarrow> x \<in> set xs \<Longrightarrow> length (filter (\<lambda>r. r = x) xs) = 1"
proof (induction xs)
  case Nil
  then show ?case by simp
next
  case (Cons y ys)
  show ?case
  proof (cases "y = x")
    case True
    then have "filter (\<lambda>r. r = x) ys = []"
      using Cons.prems by (auto simp: filter_empty_conv)
    with True show ?thesis by simp
  next
    case False
    then show ?thesis using Cons by simp
  qed
qed

lemma onFollow_followers:
  assumes "resolve_username ctx = Some u" and "truthy (follow_actorId fl) = Some a"
  shows "followers (snd (onFollow domain fed uuid ctx fl w)) =
           insert_or_ignore_follower (u, a) (followers w)"
    and "users (snd (onFollow domain fed uuid ctx fl w)) = users w"
    and "posts (snd (onFollow domain fed uuid ctx fl w)) = posts w"
  using assms by (simp_all add: onFollow_def Let_def split: option.split)

lemma onUndo_follow:
  assumes "resolve_username ctx = Some u" and "truthy (undo_actorId un) = Some a"
    and "undo_object un = WrappedFollow"
  shows "onUndo ctx un w = w\<lparr>followers := delete_follower u a (followers w)\<rparr>"
  using assms by (simp add: onUndo_def)

text \<open>
  Claim C6. Follow/Undo round trip for a pair of a local username and a remote actor: after
  the Follow the pair is in the followers table and \<open>hasFollowers\<close> of the username is true;
  after the Undo wrapping a Follow that follows it, the table has zero rows for the pair (it
  is the table before the Follow without that pair). The insert and the delete are
  idempotent: a repeated Follow leaves the table as the first left it, a repeated Undo
  leaves the world as the first left it, and repeating both ends in the same table. In a
  table without duplicate rows the Follow leaves exactly one row for the pair.
\<close>

theorem follow_undo_round_trip:
  assumes ctx: "resolve_username ctx = Some u"
    and fl: "truthy (follow_actorId fl) = Some a"
    and un: "truthy (undo_actorId un) = Some a" "undo_object un = WrappedFollow"
  shows "hasFollowers u (snd (onFollow domain fed uuid ctx fl w))
     \<and> (u, a) \<in> set (followers (snd (onFollow domain fed uuid ctx fl w)))
     \<and> filter (\<lambda>r. r = (u, a))
          (followers (onUndo ctx un (snd (onFollow domain fed uuid ctx fl w)))) = []
     \<and> followers (onUndo ctx un (snd (onFollow domain fed uuid ctx fl w)))
          = delete_follower u a (followers w)
     \<and> followers (snd (onFollow domain' fed' uuid' ctx fl (snd (onFollow domain fed uuid ctx fl w))))
          = followers (snd (onFollow domain fed uuid ctx fl w))
     \<and> onUndo ctx un (onUndo ctx un (snd (onFollow domain fed uuid ctx fl w)))
          = onUndo ctx un (snd (onFollow domain fed uuid ctx fl w))
     \<and> followers (onUndo ctx un (onUndo ctx un
          (snd (onFollow domain' fed' uuid' ctx fl (snd (onFollow domain fed uuid ctx fl w))))))
          = followers (onUndo ctx un (snd (onFollow domain fed uuid ctx fl w)))
     \<and> (distinct (followers w) \<longrightarrow>
          length (filter (\<lambda>r. r = (u, a)) (followers (snd (onFollow domain fed uuid ctx fl w)))) = 1)"
proof -
  let ?w1 = "snd (onFollow domain fed uuid ctx fl w)"
  let ?w11 = "snd (onFollow domain' fed' uuid' ctx fl ?w1)"
  have f1: "followers ?w1 = insert_or_ignore_follower (u, a) (followers w)"
    using ctx fl by (rule onFollow_followers(1))
  have f11: "followers ?w11 = insert_or_ignore_follower (u, a) (followers ?w1)"
    using ctx fl by (rule onFollow_followers(1))
  have u1: "\<And>v. onUndo ctx un v = v\<lparr>followers := delete_follower u a (followers v)\<rparr>"
    using ctx un by (rule onUndo_follow)
  have m: "(u, a) \<in> set (followers ?w1)"
    unfolding f1 by (rule insert_or_ignore_follower_member)
  then have h: "hasFollowers u ?w1"
    by (simp add: hasFollowers_def count_followers_member)
  have z: "filter (\<lambda>r. r = (u, a)) (followers (onUndo ctx un ?w1)) = []"
    using delete_follower_absent [of u a "followers ?w1"]
    by (auto simp: u1 filter_empty_conv)
  have d: "followers (onUndo ctx un ?w1) = delete_follower u a (followers w)"
    by (simp add: u1 f1 delete_after_insert)
  have r: "followers ?w11 = followers ?w1"
    unfolding f11 f1 by (rule insert_or_ignore_follower_idem)
  have i: "onUndo ctx un (onUndo ctx un ?w1) = onUndo ctx un ?w1"
    by (simp add: u1 delete_follower_idem)
  have j: "followers (onUndo ctx un (onUndo ctx un ?w11)) = followers (onUndo ctx un ?w1)"
    by (simp add: u1 delete_follower_idem r)
  have k: "length (filter (\<lambda>r. r = (u, a)) (followers ?w1)) = 1" if "distinct (followers w)"
  proof -
    have "distinct (followers ?w1)"
      unfolding f1 using that by (rule insert_or_ignore_follower_distinct)
    then show ?thesis
      using m by (rule distinct_member_once)
  qed
  from h m z d r i j k show ?thesis by blast
qed

lemma alice_inbox_resolves: "resolve_username alice_inbox = Some ''alice''"
  by (simp add: resolve_username_def alice_inbox_def truthy_def at_index_def)


text \<open>
  Follow(local = \<open>alice\<close>, remote = \<open>https://remote.example/users/bob\<close>) delivered to
  alice's inbox, then Undo(Follow) for the same pair.
\<close>

theorem follow_undo_round_trip_witness:
  "resolve_username alice_inbox = Some ''alice''
   \<and> truthy (follow_actorId follow_from_bob) = Some bob
   \<and> truthy (undo_actorId undo_from_bob) = Some bob
   \<and> undo_object undo_from_bob = WrappedFollow
   \<and> hasFollowers ''alice''
        (snd (onFollow ''https://bridge.example'' bridge_federation ''u1'' alice_inbox follow_from_bob lonely_world))
   \<and> filter (\<lambda>r. r = (''alice'', bob))
        (followers (onUndo alice_inbox undo_from_bob
          (snd (onFollow ''https://bridge.example'' bridge_federation ''u1'' alice_inbox follow_from_bob lonely_world)))) = []
   \<and> followers (onUndo alice_inbox undo_from_bob
          (snd (onFollow ''https://bridge.example'' bridge_federation ''u1'' alice_inbox follow_from_bob lonely_world))) = []
   \<and> length (filter (\<lambda>r. r = (''alice'', bob))
        (followers (snd (onFollow ''https://bridge.example'' bridge_federation ''u1'' alice_inbox follow_from_bob lonely_world)))) = 1"
proof -
  have a: "resolve_username alice_inbox = Some ''alice''"
    by (rule alice_inbox_resolves)
  have b: "truthy (follow_actorId follow_from_bob) = Some bob"
    "truthy (undo_actorId undo_from_bob) = Some bob"
    "undo_object undo_from_bob = WrappedFollow"
    by (simp_all add: truthy_def follow_from_bob_def undo_from_bob_def bob_def)
  have c: "distinct (followers lonely_world)" "delete_follower ''alice'' bob (followers lonely_world) = []"
    by (simp_all add: lonely_world_def delete_follower_def)
  note rt = follow_undo_round_trip [OF a b, of "''https://bridge.example''" bridge_federation "''u1''"
      lonely_world]
  have d: "followers (onUndo alice_inbox undo_from_bob
          (snd (onFollow ''https://bridge.example'' bridge_federation ''u1'' alice_inbox follow_from_bob lonely_world))) = []"
    using rt c(2) by simp
  from a b c(1) d rt show ?thesis by blast
qed

text \<open>
  Claim C7. For every inbound Follow activity without a resolvable remote actor identifier,
  the Follow handler returns at one of its two first guards: it writes no follower row and
  neither constructs nor dispatches an Accept. The world, and with it the followers table
  and the list of dispatched activities, is unchanged.
\<close>

theorem follow_without_actor_dropped:
  "truthy (follow_actorId fl) = None \<longrightarrow>
     onFollow domain fed uuid ctx fl w =
       (if resolve_username ctx = None then NoUsername else NoActor, w)
     \<and> followers (snd (onFollow domain fed uuid ctx fl w)) = followers w
     \<and> effects (snd (onFollow domain fed uuid ctx fl w)) = effects w"
  by (simp add: onFollow_def split: option.split)

text \<open>A Follow without actor delivered to alice's inbox.\<close>

theorem follow_without_actor_dropped_witness:
  "truthy (follow_actorId follow_without_actor) = None
   \<and> onFollow ''https://bridge.example'' bridge_federation ''u1'' alice_inbox follow_without_actor
        lonely_world = (NoActor, lonely_world)
   \<and> followers (snd (onFollow ''https://bridge.example'' bridge_federation ''u1'' alice_inbox
        follow_without_actor lonely_world)) = []
   \<and> sends (snd (onFollow ''https://bridge.example'' bridge_federation ''u1'' alice_inbox
        follow_without_actor lonely_world)) = 0"
proof -
  have a: "truthy (follow_actorId follow_without_actor) = None"
    by (simp add: truthy_def follow_without_actor_def)
  have b: "resolve_username alice_inbox \<noteq> None"
    by (simp add: alice_inbox_resolves)
  have c: "followers lonely_world = []" "sends lonely_world = 0"
    by (simp_all add: lonely_world_def sends_def)
  have "onFollow ''https://bridge.example'' bridge_federation ''u1'' alice_inbox follow_without_actor
        lonely_world = (NoActor, lonely_world)"
    using follow_without_actor_dropped
      [of follow_without_actor "''https://bridge.example''" bridge_federation "''u1''" alice_inbox
        lonely_world] a b
    by simp
  with a c show ?thesis by simp
qed





section \<open>A fetch of posts that does not succeed\<close>

lemma syncPosts_gates_passed:
  assumes "fst (ensureUser pf u w) = Inr (Some row)"
    and "hasFollowers u w"
    and "ttl \<le> now1 - lastPostSync row"
  shows "syncPosts ttl pf now1 now2 u w =
     (let w2 = (snd (ensureUser pf u w))
                 \<lparr>effects := effects (snd (ensureUser pf u w)) @ [RemotePostsFetch (userId row)]\<rparr>
      in case postsLookup pf (userId row) of
           FetchRejected \<Rightarrow> (Inl NetworkError, w2)
         | NotOk \<Rightarrow> (Inr (), w2)
         | BodyRejected \<Rightarrow> (Inl BodyError, w2)
         | Ok infos \<Rightarrow>
             (Inr (), w2\<lparr>posts := upsert_posts u (or_nil infos) (posts w2),
                         users := update_lastPostSync now2 u (users w2)\<rparr>))"
proof (cases "ensureUser pf u w")
  case (Pair res w1)
  with assms(1) have res: "res = Inr (Some row)" by simp
  have hf: "hasFollowers u w1"
    using ensureUser_hasFollowers [of u pf u w] Pair assms(2) by simp
  show ?thesis
    using Pair res hf assms(3) by (simp add: syncPosts_def Let_def split: response.split)
qed

lemma syncPosts_unsuccessful_world:
  assumes "fst (ensureUser pf u w) = Inr (Some row)"
    and "hasFollowers u w"
    and "ttl \<le> now1 - lastPostSync row"
    and "\<forall>infos. postsLookup pf (userId row) \<noteq> Ok infos"
  shows "snd (syncPosts ttl pf now1 now2 u w) =
     (snd (ensureUser pf u w))
        \<lparr>effects := effects (snd (ensureUser pf u w)) @ [RemotePostsFetch (userId row)]\<rparr>"
  using assms(4) unfolding syncPosts_gates_passed [OF assms(1-3)]
  by (cases "postsLookup pf (userId row)") (simp_all add: Let_def)

lemma syncPosts_success_row:
  assumes "fst (ensureUser pf u w) = Inr (Some row)"
    and "hasFollowers u w"
    and "ttl \<le> now1 - lastPostSync row"
    and "postsLookup pf (userId row) = Ok infos"
  shows "select_user u (users (snd (syncPosts ttl pf now1 now2 u w)))
           = Some (row\<lparr>lastPostSync := now2\<rparr>)"
proof -
  have st: "select_user u (users (snd (ensureUser pf u w))) = Some row"
    using assms(1) by (rule ensureUser_returns_stored)
  have us: "users (snd (syncPosts ttl pf now1 now2 u w))
              = update_lastPostSync now2 u (users (snd (ensureUser pf u w)))"
    using syncPosts_success [OF assms, of now2] by simp
  show ?thesis
    unfolding us using st by (rule select_user_update_lastPostSync)
qed

text \<open>
  Claim C9, as amended. \<open>syncPosts\<close> stamps \<open>lastPostSync\<close> with the current time only
  after the remote fetch of posts succeeded. When the call has passed its gates and the fetch
  answers with a non-success status, \<open>syncPosts\<close> returns; when the fetch itself fails (the
  request rejects, or the body cannot be read), \<open>syncPosts\<close> ends with that error, passed on
  to its caller. In all these cases the posts table is unchanged and the users table is what
  \<open>ensureUser\<close> left (unchanged if the row existed), so the user's \<open>lastPostSync\<close> is the
  one the gate read, and a later call whose clock passes the TTL gate on that value fetches
  again.
\<close>

theorem syncPosts_failed_fetch:
  assumes "fst (ensureUser pf u w) = Inr (Some row)"
    and "hasFollowers u w"
    and "ttl \<le> now1 - lastPostSync row"
  shows
    "(postsLookup pf (userId row) = NotOk \<longrightarrow> fst (syncPosts ttl pf now1 now2 u w) = Inr ())
     \<and> (postsLookup pf (userId row) = FetchRejected \<longrightarrow>
          fst (syncPosts ttl pf now1 now2 u w) = Inl NetworkError)
     \<and> (postsLookup pf (userId row) = BodyRejected \<longrightarrow>
          fst (syncPosts ttl pf now1 now2 u w) = Inl BodyError)
     \<and> ((\<forall>infos. postsLookup pf (userId row) \<noteq> Ok infos) \<longrightarrow>
          posts (snd (syncPosts ttl pf now1 now2 u w)) = posts w
          \<and> users (snd (syncPosts ttl pf now1 now2 u w)) = users (snd (ensureUser pf u w))
          \<and> select_user u (users (snd (syncPosts ttl pf now1 now2 u w))) = Some row
          \<and> (select_user u (users w) = Some row \<longrightarrow>
               users (snd (syncPosts ttl pf now1 now2 u w)) = users w)
          \<and> (ttl \<le> now3 - lastPostSync row \<longrightarrow>
               posts_fetches (snd (syncPosts ttl pf' now3 now4 u (snd (syncPosts ttl pf now1 now2 u w))))
                 = posts_fetches (snd (syncPosts ttl pf now1 now2 u w)) + 1))
     \<and> (postsLookup pf (userId row) = Ok infos \<longrightarrow>
          select_user u (users (snd (syncPosts ttl pf now1 now2 u w)))
            = Some (row\<lparr>lastPostSync := now2\<rparr>))"
proof (intro conjI impI)
  note gp = syncPosts_gates_passed [OF assms, of now2]
  show "fst (syncPosts ttl pf now1 now2 u w) = Inr ()" if "postsLookup pf (userId row) = NotOk"
    unfolding gp using that by (simp add: Let_def)
  show "fst (syncPosts ttl pf now1 now2 u w) = Inl NetworkError"
    if "postsLookup pf (userId row) = FetchRejected"
    unfolding gp using that by (simp add: Let_def)
  show "fst (syncPosts ttl pf now1 now2 u w) = Inl BodyError"
    if "postsLookup pf (userId row) = BodyRejected"
    unfolding gp using that by (simp add: Let_def)
next
  assume "postsLookup pf (userId row) = Ok infos"
  then show "select_user u (users (snd (syncPosts ttl pf now1 now2 u w)))
            = Some (row\<lparr>lastPostSync := now2\<rparr>)"
    using assms by (simp add: syncPosts_success_row)
next
  assume n: "\<forall>infos. postsLookup pf (userId row) \<noteq> Ok infos"
  let ?S = "snd (syncPosts ttl pf now1 now2 u w)"
  have S: "?S = (snd (ensureUser pf u w))
        \<lparr>effects := effects (snd (ensureUser pf u w)) @ [RemotePostsFetch (userId row)]\<rparr>"
    using assms n by (rule syncPosts_unsuccessful_world)
  show "posts ?S = posts w"
    unfolding S by (simp add: ensureUser_frame)
  show us: "users ?S = users (snd (ensureUser pf u w))"
    unfolding S by simp
  show sel: "select_user u (users ?S) = Some row"
    unfolding us using assms(1) by (rule ensureUser_returns_stored)
  show "users ?S = users w" if "select_user u (users w) = Some row"
    unfolding us using that by (simp add: ensureUser_existing)
  show "posts_fetches (snd (syncPosts ttl pf' now3 now4 u ?S)) = posts_fetches ?S + 1"
    if late: "ttl \<le> now3 - lastPostSync row"
  proof -
    have e: "fst (ensureUser pf' u ?S) = Inr (Some row)"
      using sel by (simp add: ensureUser_existing)
    have "followers ?S = followers w"
      unfolding S by (simp add: ensureUser_frame)
    then have f: "hasFollowers u ?S"
      using assms(2) by (simp add: hasFollowers_def)
    show ?thesis
      using e f late by (simp add: syncPosts_fetch_count)
  qed
qed

lemma stocked_gates:
  "fst (ensureUser pf ''alice'' stocked_world) = Inr (Some (new_user_row alice_info))"
  "hasFollowers ''alice'' stocked_world"
  "(300000::int) \<le> 1000000 - lastPostSync (new_user_row alice_info)"
  "userId (new_user_row alice_info) = ''42''"
  by (simp_all add: ensureUser_def select_user_def stocked_world_def new_user_row_def
      alice_info_def hasFollowers_def count_followers_def)

text \<open>
  The platform refuses the posts request of a followed, stored account: the call returns,
  tables unchanged, and the next call, 100 ms later, fetches again. The same with a platform
  that is down.
\<close>

theorem syncPosts_failed_fetch_witness:
  "fst (ensureUser platform_refusing ''alice'' stocked_world) = Inr (Some (new_user_row alice_info))
   \<and> hasFollowers ''alice'' stocked_world
   \<and> (300000::int) \<le> 1000000 - lastPostSync (new_user_row alice_info)
   \<and> postsLookup platform_refusing (userId (new_user_row alice_info)) = NotOk
   \<and> fst (syncPosts 300000 platform_refusing 1000000 1000005 ''alice'' stocked_world) = Inr ()
   \<and> posts (snd (syncPosts 300000 platform_refusing 1000000 1000005 ''alice'' stocked_world))
       = posts stocked_world
   \<and> users (snd (syncPosts 300000 platform_refusing 1000000 1000005 ''alice'' stocked_world))
       = users stocked_world
   \<and> posts_fetches (snd (syncPosts 300000 platform_up 1000100 1000105 ''alice''
        (snd (syncPosts 300000 platform_refusing 1000000 1000005 ''alice'' stocked_world))))
       = posts_fetches (snd (syncPosts 300000 platform_refusing 1000000 1000005 ''alice'' stocked_world)) + 1
   \<and> postsLookup platform_down (userId (new_user_row alice_info)) = FetchRejected
   \<and> posts (snd (syncPosts 300000 platform_down 1000000 1000005 ''alice'' stocked_world))
       = posts stocked_world
   \<and> users (snd (syncPosts 300000 platform_down 1000000 1000005 ''alice'' stocked_world))
       = users stocked_world"
proof -
  have l: "postsLookup platform_refusing (userId (new_user_row alice_info)) = NotOk"
    "postsLookup platform_down (userId (new_user_row alice_info)) = FetchRejected"
    by (simp_all add: platform_refusing_def platform_down_def)
  have n: "\<forall>infos. postsLookup platform_refusing (userId (new_user_row alice_info)) \<noteq> Ok infos"
    "\<forall>infos. postsLookup platform_down (userId (new_user_row alice_info)) \<noteq> Ok infos"
    using l by simp_all
  have s: "select_user ''alice'' (users stocked_world) = Some (new_user_row alice_info)"
    by (simp add: select_user_def stocked_world_def new_user_row_def alice_info_def)
  have t: "(300000::int) \<le> 1000100 - lastPostSync (new_user_row alice_info)"
    by (simp add: new_user_row_def)
  note refused = syncPosts_failed_fetch
    [OF stocked_gates(1-3), of platform_refusing 1000005 1000100 platform_up 1000105]
  note down = syncPosts_failed_fetch
    [OF stocked_gates(1-3), of platform_down 1000005 1000100 platform_up 1000105]
  have a: "fst (syncPosts 300000 platform_refusing 1000000 1000005 ''alice'' stocked_world) = Inr ()"
    using refused l(1) by blast
  have b: "posts (snd (syncPosts 300000 platform_refusing 1000000 1000005 ''alice'' stocked_world))
       = posts stocked_world"
    "users (snd (syncPosts 300000 platform_refusing 1000000 1000005 ''alice'' stocked_world))
       = users stocked_world"
    "posts_fetches (snd (syncPosts 300000 platform_up 1000100 1000105 ''alice''
        (snd (syncPosts 300000 platform_refusing 1000000 1000005 ''alice'' stocked_world))))
       = posts_fetches (snd (syncPosts 300000 platform_refusing 1000000 1000005 ''alice'' stocked_world)) + 1"
    using refused n(1) s t by blast+
  have c: "posts (snd (syncPosts 300000 platform_down 1000000 1000005 ''alice'' stocked_world))
       = posts stocked_world"
    "users (snd (syncPosts 300000 platform_down 1000000 1000005 ''alice'' stocked_world))
       = users stocked_world"
    using down n(2) s by blast+
  from stocked_gates(1) [of platform_refusing] stocked_gates(2,3) l a b c show ?thesis by blast
qed

text \<open>
  Claim C9 as first stated says that \<open>syncPosts\<close> returns when the fetch fails. With the
  platform down the awaited fetch rejects, nothing catches it, and the call ends with the
  error instead of returning.
\<close>

theorem syncPosts_failed_fetch_counterexample:
  "hasFollowers ''alice'' stocked_world
   \<and> postsLookup platform_down ''42'' = FetchRejected
   \<and> fst (syncPosts 300000 platform_down 1000000 1000005 ''alice'' stocked_world) = Inl NetworkError
   \<and> fst (syncPosts 300000 platform_down 1000000 1000005 ''alice'' stocked_world) \<noteq> Inr ()"
proof -
  have "fst (syncPosts 300000 platform_down 1000000 1000005 ''alice'' stocked_world) = Inl NetworkError"
    unfolding syncPosts_gates_passed [OF stocked_gates(1-3)]
    by (simp add: Let_def stocked_gates(4) platform_down_def)
  then show ?thesis
    by (simp add: stocked_gates(2) platform_down_def)
qed

section \<open>The outbox\<close>

lemma select_posts_desc_mset:
  "mset (select_posts_desc u ps) = mset (filter (\<lambda>p. post_username p = u) ps)"
  by (simp add: select_posts_desc_def)

lemma select_posts_desc_sorted:
  "sorted_wrt (\<lambda>p q. post_createdAt q \<le> post_createdAt p) (select_posts_desc u ps)"
proof -
  let ?rows = "filter (\<lambda>p. post_username p = u) ps"
  have "sorted (map (\<lambda>p. - post_createdAt p) (sort_key (\<lambda>p. - post_createdAt p) ?rows))"
    by (rule sorted_sort_key)
  then have "sorted_wrt (\<lambda>p q. - post_createdAt p \<le> - post_createdAt q)
               (sort_key (\<lambda>p. - post_createdAt p) ?rows)"
    by (simp add: sorted_wrt_map)
  then show ?thesis
    by (simp add: select_posts_desc_def)
qed

lemma to_create_raises: "to_create domain actorUri uname p = Inl TypeError"
  by (simp add: to_create_def new_Note_def)

lemma map_rows_to_create:
  "map_rows (to_create domain actorUri uname) rows = (if rows = [] then Inr [] else Inl TypeError)"
  by (cases rows) (simp_all add: to_create_raises)

lemma outboxDispatcher_unfollowed:
  "\<not> hasFollowers (identifier_username ident) w \<Longrightarrow>
   outboxDispatcher domain actorUri ttl pf now1 now2 ident w = (Inr [], w)"
  by (simp add: outboxDispatcher_def Let_def)

lemma outboxDispatcher_synced:
  "hasFollowers (identifier_username ident) w \<Longrightarrow>
   syncPosts ttl pf now1 now2 (identifier_username ident) w = (Inr (), w1) \<Longrightarrow>
   outboxDispatcher domain actorUri ttl pf now1 now2 ident w =
     (if select_posts_desc (identifier_username ident) (posts w1) = [] then Inr []
      else Inl TypeError, w1)"
  by (simp add: outboxDispatcher_def Let_def map_rows_to_create)

lemma stocked_refused:
  "syncPosts 300000 platform_refusing 1000000 1000005 ''alice'' stocked_world =
     (Inr (), stocked_world\<lparr>effects := [RemotePostsFetch ''42'']\<rparr>)"
  unfolding syncPosts_gates_passed [OF stocked_gates(1-3)]
  by (simp add: Let_def stocked_gates(4) platform_refusing_def ensureUser_def select_user_def
      stocked_world_def new_user_row_def alice_info_def)

lemma stocked_order:
  "select_posts_desc ''alice'' (posts stocked_world) =
     [new_post_row ''alice'' post_b, new_post_row ''alice'' post_c, new_post_row ''alice'' post_a]"
  by (simp add: select_posts_desc_def stocked_world_def new_post_row_def post_a_def post_b_def
      post_c_def)

text \<open>
  Claim C5 has the outbox dispatcher return, for a user with a follower, the stored posts in
  descending \<open>createdAt\<close> order, each as a Create activity wrapping a Note. For the followed
  account with posts stored at 100, 300 and 200 the sync returns and the rows are read in the
  order 300, 200, 100, but the construction of the first Note is given a string as its id and
  raises: the dispatcher ends with a \<open>TypeError\<close> and returns no activity.
\<close>

theorem outboxDispatcher_type_error:
  "hasFollowers (identifier_username (IdentString ''alice'')) stocked_world
   \<and> syncPosts 300000 platform_refusing 1000000 1000005 ''alice'' stocked_world =
       (Inr (), stocked_world\<lparr>effects := [RemotePostsFetch ''42'']\<rparr>)
   \<and> map post_createdAt (select_posts_desc ''alice'' (posts stocked_world)) = [300, 200, 100]
   \<and> outboxDispatcher ''https://bridge.example'' bridge_actor_uri 300000 platform_refusing
        1000000 1000005 (IdentString ''alice'') stocked_world =
       (Inl TypeError, stocked_world\<lparr>effects := [RemotePostsFetch ''42'']\<rparr>)"
proof -
  have a: "hasFollowers (identifier_username (IdentString ''alice'')) stocked_world"
    using stocked_gates(2) by simp
  have b: "syncPosts 300000 platform_refusing 1000000 1000005
             (identifier_username (IdentString ''alice'')) stocked_world =
           (Inr (), stocked_world\<lparr>effects := [RemotePostsFetch ''42'']\<rparr>)"
    using stocked_refused by simp
  have c: "select_posts_desc (identifier_username (IdentString ''alice''))
             (posts (stocked_world\<lparr>effects := [RemotePostsFetch ''42'']\<rparr>)) \<noteq> []"
    by (simp add: stocked_order)
  have d: "map post_createdAt (select_posts_desc ''alice'' (posts stocked_world)) = [300, 200, 100]"
    by (simp add: stocked_order new_post_row_def post_a_def post_b_def post_c_def)
  have e: "outboxDispatcher ''https://bridge.example'' bridge_actor_uri 300000 platform_refusing
        1000000 1000005 (IdentString ''alice'') stocked_world =
       (Inl TypeError, stocked_world\<lparr>effects := [RemotePostsFetch ''42'']\<rparr>)"
    using outboxDispatcher_synced [OF a b] c by simp
  from a stocked_refused d e show ?thesis by simp
qed

end
